theory Spec2Isabelle
  imports Main "HOL-Library.Log_Nat"
begin

section \<open>MoodTune backend: emotion scoring and catalog lookup\<close>

text \<open>
  A shallow embedding of \<^verbatim>\<open>backend.py\<close>: the keyword scorer
  \<^verbatim>\<open>MoodDetector.detect_emotion\<close>, the catalog lookup
  \<^verbatim>\<open>MusicRecommender.get_recommendations\<close> and the pipeline
  \<^verbatim>\<open>MoodTuneAPI.analyze_and_recommend\<close>.

  Conventions of the model.
  \<^item> A Python \<^verbatim>\<open>str\<close> is a \<open>string\<close>; the character \<open>c\<close> stands for the
    code point \<open>of_char c\<close>, so the texts of the model are the Python strings whose
    code points are below 256 (ASCII and the Latin-1 supplement).
  \<^item> A Python \<^verbatim>\<open>dict\<close> is an association list in insertion order, which is the
    order Python iterates it in.
  \<^item> A Python \<^verbatim>\<open>int\<close> is an \<open>int\<close>. A Python \<^verbatim>\<open>float\<close> is the rational
    number it denotes; float operations round to binary64 explicitly (\<open>fl64\<close>).
  \<^item> An exception is a value \<open>Inl e\<close> of the result type \<open>py_error + 'a\<close>.
\<close>

subsection \<open>Exceptions\<close>

datatype py_error = KeyError | ValueError | ZeroDivisionError | OverflowError

subsection \<open>Characters: \<^verbatim>\<open>str.lower\<close> and the regex classes \<^verbatim>\<open>\w\<close>, \<^verbatim>\<open>\s\<close>\<close>

text \<open>
  \<^verbatim>\<open>str.lower()\<close> on code points below 256: the ASCII capitals and the Latin-1
  capitals \<open>0xC0..0xDE\<close> (without the multiplication sign \<open>0xD7\<close>) move up by 32,
  every other character is unchanged, and the result has the length of the input.
\<close>

definition lower_char :: "char \<Rightarrow> char" where
  "lower_char c =
     (let n = (of_char c :: nat)
      in if (65 \<le> n \<and> n \<le> 90) \<or> (192 \<le> n \<and> n \<le> 222 \<and> n \<noteq> 215)
         then char_of (n + 32) else c)"

definition lower :: "string \<Rightarrow> string" where
  "lower text = map lower_char text"

text \<open>
  \<^verbatim>\<open>\w\<close> of a \<^verbatim>\<open>str\<close> pattern: the alphanumeric characters and the underscore.
  Below 256 these are the digits, the ASCII letters, \<open>_\<close>, and in the Latin-1
  supplement \<open>0xAA\<close>, \<open>0xB2\<close>, \<open>0xB3\<close>, \<open>0xB5\<close>, \<open>0xB9\<close>, \<open>0xBA\<close>,
  \<open>0xBC..0xBE\<close>, \<open>0xC0..0xD6\<close>, \<open>0xD8..0xF6\<close> and \<open>0xF8..0xFF\<close>.
\<close>

definition is_word_char :: "char \<Rightarrow> bool" where
  "is_word_char c =
     (let n = (of_char c :: nat)
      in (48 \<le> n \<and> n \<le> 57) \<or> (65 \<le> n \<and> n \<le> 90) \<or> n = 95 \<or> (97 \<le> n \<and> n \<le> 122)
         \<or> n = 170 \<or> n = 178 \<or> n = 179 \<or> n = 181 \<or> n = 185 \<or> n = 186
         \<or> (188 \<le> n \<and> n \<le> 190) \<or> (192 \<le> n \<and> n \<le> 214)
         \<or> (216 \<le> n \<and> n \<le> 246) \<or> (248 \<le> n \<and> n \<le> 255))"

text \<open>
  \<^verbatim>\<open>\s\<close> of a \<^verbatim>\<open>str\<close> pattern below 256: \<open>0x09..0x0D\<close>, \<open>0x1C..0x20\<close>,
  \<open>0x85\<close> and \<open>0xA0\<close>.
\<close>

definition is_space_char :: "char \<Rightarrow> bool" where
  "is_space_char c =
     (let n = (of_char c :: nat)
      in (9 \<le> n \<and> n \<le> 13) \<or> (28 \<le> n \<and> n \<le> 32) \<or> n = 133 \<or> n = 160)"

text \<open>\<^verbatim>\<open>re.sub(r'[^\w\s]', ' ', s)\<close>: every character outside both classes becomes one space.\<close>

definition sub_non_word_space :: "string \<Rightarrow> string" where
  "sub_non_word_space s =
     map (\<lambda>c. if is_word_char c \<or> is_space_char c then c else CHR '' '') s"

definition normalize_text :: "string \<Rightarrow> string" where
  "normalize_text text = sub_non_word_space (lower text)"

subsection \<open>Substring test: \<^verbatim>\<open>keyword in text_clean\<close>\<close>

fun starts_with :: "string \<Rightarrow> string \<Rightarrow> bool" where
  "starts_with s [] = True"
| "starts_with [] (k # ks) = False"
| "starts_with (c # cs) (k # ks) = (c = k \<and> starts_with cs ks)"

fun str_contains :: "string \<Rightarrow> string \<Rightarrow> bool" where
  "str_contains [] kw = (kw = [])"
| "str_contains (c # cs) kw = (starts_with (c # cs) kw \<or> str_contains cs kw)"

subsection \<open>Floats\<close>

text \<open>
  A finite binary64 value is a rational. \<open>fl64 x\<close> is the binary64 value nearest to
  \<open>x\<close>, ties to the even significand: with \<open>e\<close> the binary exponent of \<open>x\<close> (not
  below \<open>-1022\<close>, where the subnormals start), \<open>x\<close> is rounded to a multiple of
  \<open>2 powi (e - 52)\<close>.
\<close>

definition round_half_even :: "rat \<Rightarrow> int" where
  "round_half_even x =
     (let f = \<lfloor>x\<rfloor>; d = x - of_int f
      in if d < 1 / 2 then f else if 1 / 2 < d then f + 1
         else if even f then f else f + 1)"

definition binary_exponent :: "rat \<Rightarrow> int" where
  "binary_exponent x =
     (if 1 \<le> \<bar>x\<bar> then bitlen \<lfloor>\<bar>x\<bar>\<rfloor> - 1 else - bitlen (\<lceil>1 / \<bar>x\<bar>\<rceil> - 1))"

definition fl64 :: "rat \<Rightarrow> rat" where
  "fl64 x =
     (if x = 0 then 0
      else let u = 2 powi (max (binary_exponent x) (- 1022) - 52)
           in of_int (round_half_even (x / u)) * u)"

text \<open>
  \<^verbatim>\<open>a / b\<close> on two ints: the exact quotient, correctly rounded; a zero divisor and a
  quotient too large for a float raise.
\<close>

definition py_truediv :: "int \<Rightarrow> int \<Rightarrow> py_error + rat" where
  "py_truediv a b =
     (if b = 0 then Inl ZeroDivisionError
      else let q = fl64 (of_int a / of_int b)
           in if 2 ^ 1024 \<le> \<bar>q\<bar> then Inl OverflowError else Inr q)"

text \<open>
  \<^verbatim>\<open>round(x, ndigits)\<close> on a float: the exact value of \<open>x\<close> is rounded half-even to
  \<open>ndigits\<close> decimals, and the decimal is read back as the nearest float.
\<close>

definition py_round :: "rat \<Rightarrow> nat \<Rightarrow> rat" where
  "py_round x ndigits = fl64 (of_int (round_half_even (x * 10 ^ ndigits)) / 10 ^ ndigits)"

subsection \<open>The emotion vocabulary\<close>

record keyword_sets =
  primary :: "string list"
  secondary :: "string list"
  intensity_words :: "string list"

definition emotion_keywords :: "(string \<times> keyword_sets) list" where
  "emotion_keywords = [
     (''happy'',
      \<lparr>primary = [''happy'', ''joy'', ''excited'', ''great'', ''amazing'', ''wonderful'', ''cheerful'', ''delighted''],
       secondary = [''good'', ''nice'', ''pleased'', ''satisfied'', ''content'', ''upbeat''],
       intensity_words = [''ecstatic'', ''thrilled'', ''overjoyed'', ''euphoric'']\<rparr>),
     (''sad'',
      \<lparr>primary = [''sad'', ''depressed'', ''down'', ''lonely'', ''heartbroken'', ''melancholy'', ''miserable''],
       secondary = [''blue'', ''gloomy'', ''disappointed'', ''hurt'', ''upset''],
       intensity_words = [''devastated'', ''crushed'', ''despondent'', ''hopeless'']\<rparr>),
     (''energetic'',
      \<lparr>primary = [''energetic'', ''pumped'', ''hyper'', ''motivated'', ''active'', ''powerful''],
       secondary = [''workout'', ''exercise'', ''run'', ''dance'', ''move''],
       intensity_words = [''explosive'', ''unstoppable'', ''charged'', ''electrified'']\<rparr>),
     (''calm'',
      \<lparr>primary = [''calm'', ''peaceful'', ''relax'', ''chill'', ''tranquil'', ''serene''],
       secondary = [''meditate'', ''zen'', ''quiet'', ''still'', ''composed''],
       intensity_words = [''blissful'', ''centered'', ''harmonious'']\<rparr>),
     (''romantic'',
      \<lparr>primary = [''love'', ''romantic'', ''crush'', ''date'', ''relationship'', ''tender''],
       secondary = [''affection'', ''caring'', ''devoted'', ''intimate''],
       intensity_words = [''passionate'', ''smitten'', ''infatuated'', ''adoring'']\<rparr>),
     (''angry'',
      \<lparr>primary = [''angry'', ''mad'', ''furious'', ''rage'', ''frustrated'', ''annoyed''],
       secondary = [''irritated'', ''bothered'', ''pissed'', ''livid''],
       intensity_words = [''enraged'', ''incensed'', ''outraged'', ''seething'']\<rparr>),
     (''anxious'',
      \<lparr>primary = [''anxious'', ''nervous'', ''worried'', ''stressed'', ''tense'', ''overwhelmed''],
       secondary = [''uneasy'', ''restless'', ''concerned'', ''troubled''],
       intensity_words = [''panicked'', ''terrified'', ''frantic'', ''distressed'']\<rparr>),
     (''nostalgic'',
      \<lparr>primary = [''nostalgic'', ''memories'', ''remember'', ''past'', ''throwback'', ''reminisce''],
       secondary = [''missing'', ''longing'', ''sentimental'', ''wistful''],
       intensity_words = [''yearning'', ''pining'']\<rparr>),
     (''confident'',
      \<lparr>primary = [''confident'', ''powerful'', ''strong'', ''fierce'', ''unstoppable'', ''boss''],
       secondary = [''capable'', ''determined'', ''bold'', ''assured''],
       intensity_words = [''invincible'', ''dominant'', ''fearless'', ''triumphant'']\<rparr>)]"

subsection \<open>\<^verbatim>\<open>MoodDetector.detect_emotion\<close>\<close>

record emotion_result =
  emotion :: string
  confidence :: rat
  intensity :: string
  all_scores :: "(string \<times> int) list"

text \<open>
  \<^verbatim>\<open>for keyword in kws: if keyword in text_clean: score += weight\<close>, for
  each of the three keyword lists \<open>kws\<close> of an emotion.
\<close>

fun add_matches :: "int \<Rightarrow> string list \<Rightarrow> string \<Rightarrow> int \<Rightarrow> int" where
  "add_matches weight [] text_clean score = score"
| "add_matches weight (keyword # kws) text_clean score =
     add_matches weight kws text_clean
       (if str_contains text_clean keyword then score + weight else score)"

definition emotion_score :: "keyword_sets \<Rightarrow> string \<Rightarrow> int" where
  "emotion_score ks text_clean =
     add_matches 5 (intensity_words ks) text_clean
       (add_matches 1 (secondary ks) text_clean
         (add_matches 3 (primary ks) text_clean 0))"

definition compute_scores :: "string \<Rightarrow> (string \<times> int) list" where
  "compute_scores text_clean =
     map (\<lambda>(emotion, ks). (emotion, emotion_score ks text_clean)) emotion_keywords"

text \<open>
  \<^verbatim>\<open>max(scores, key=scores.get)\<close>: the keys are visited in insertion order and the
  current best is replaced only by a strictly larger value; an empty dict raises
  \<^verbatim>\<open>ValueError\<close>. The keys of \<open>scores\<close> are distinct, so \<^verbatim>\<open>scores.get(k)\<close> is
  the value stored beside \<open>k\<close>.
\<close>

fun max_from :: "string \<Rightarrow> int \<Rightarrow> (string \<times> int) list \<Rightarrow> string" where
  "max_from best v [] = best"
| "max_from best v ((k, w) # rest) =
     (if v < w then max_from k w rest else max_from best v rest)"

fun max_key :: "(string \<times> int) list \<Rightarrow> py_error + string" where
  "max_key [] = Inl ValueError"
| "max_key ((k, v) # rest) = Inr (max_from k v rest)"

text \<open>\<^verbatim>\<open>scores[k]\<close>: a missing key raises \<^verbatim>\<open>KeyError\<close>.\<close>

definition getitem :: "(string \<times> 'v) list \<Rightarrow> string \<Rightarrow> py_error + 'v" where
  "getitem d k = (case map_of d k of None \<Rightarrow> Inl KeyError | Some v \<Rightarrow> Inr v)"

definition intensity_of :: "int \<Rightarrow> string" where
  "intensity_of max_score =
     (if 5 \<le> max_score then ''high'' else if 3 \<le> max_score then ''medium'' else ''low'')"

definition detect_emotion :: "string \<Rightarrow> py_error + emotion_result" where
  "detect_emotion text =
     (let text_lower = lower text;
          text_clean = sub_non_word_space text_lower;
          scores = compute_scores text_clean
      in if \<not> list_ex (\<lambda>v. v \<noteq> 0) (map snd scores)
         then Inr \<lparr>emotion = ''calm'', confidence = 1 / 2, intensity = ''low'',
                   all_scores = scores\<rparr>
         else
           case max_key scores of
             Inl e \<Rightarrow> Inl e
           | Inr max_emotion \<Rightarrow>
               (case getitem scores max_emotion of
                  Inl e \<Rightarrow> Inl e
                | Inr max_score \<Rightarrow>
                    (let total_score = sum_list (map snd scores)
                     in case py_truediv max_score (total_score + 1) of
                          Inl e \<Rightarrow> Inl e
                        | Inr q \<Rightarrow>
                            Inr \<lparr>emotion = max_emotion,
                                 confidence = py_round (min q 1) 2,
                                 intensity = intensity_of max_score,
                                 all_scores = scores\<rparr>)))"

subsection \<open>The song catalog\<close>

text \<open>
  The \<^verbatim>\<open>energy\<close> and \<^verbatim>\<open>valence\<close> of a song are the decimal literals of the source;
  nothing computes with them.
\<close>

record song =
  title :: string
  artist :: string
  year :: int
  genre :: string
  energy :: rat
  valence :: rat
  tags :: "string list"

definition happy_songs :: "song list" where
  "happy_songs = [
     \<lparr>title = ''Good Vibrations'', artist = ''The Beach Boys'', year = 1966, genre = ''Pop'',
      energy = 4 / 5, valence = 9 / 10,
      tags = [''Classic'', ''Feel-good'', ''Upbeat'']\<rparr>,
     \<lparr>title = ''Walking on Sunshine'', artist = ''Katrina and the Waves'', year = 1983, genre = ''Pop'',
      energy = 9 / 10, valence = 19 / 20,
      tags = [''80s'', ''Pop'', ''Energetic'']\<rparr>,
     \<lparr>title = ''Happy'', artist = ''Pharrell Williams'', year = 2013, genre = ''Pop'',
      energy = 4 / 5, valence = 9 / 10,
      tags = [''Pop'', ''Dance'', ''Positive'']\<rparr>,
     \<lparr>title = ''Don't Stop Me Now'', artist = ''Queen'', year = 1978, genre = ''Rock'',
      energy = 19 / 20, valence = 17 / 20,
      tags = [''Rock'', ''Classic'', ''Powerful'']\<rparr>,
     \<lparr>title = ''I Wanna Dance with Somebody'', artist = ''Whitney Houston'', year = 1987, genre = ''Pop'',
      energy = 9 / 10, valence = 9 / 10,
      tags = [''Pop'', ''Dance'', ''80s'']\<rparr>]"

definition sad_songs :: "song list" where
  "sad_songs = [
     \<lparr>title = ''Someone Like You'', artist = ''Adele'', year = 2011, genre = ''Pop'',
      energy = 3 / 10, valence = 1 / 5,
      tags = [''Ballad'', ''Emotional'', ''Piano'']\<rparr>,
     \<lparr>title = ''The Night We Met'', artist = ''Lord Huron'', year = 2015, genre = ''Indie'',
      energy = 2 / 5, valence = 3 / 10,
      tags = [''Indie'', ''Melancholic'', ''Acoustic'']\<rparr>,
     \<lparr>title = ''Hurt'', artist = ''Johnny Cash'', year = 2002, genre = ''Country'',
      energy = 3 / 10, valence = 3 / 20,
      tags = [''Country'', ''Deep'', ''Emotional'']\<rparr>,
     \<lparr>title = ''Mad World'', artist = ''Gary Jules'', year = 2001, genre = ''Alternative'',
      energy = 1 / 5, valence = 1 / 5,
      tags = [''Alternative'', ''Somber'', ''Reflective'']\<rparr>,
     \<lparr>title = ''Fix You'', artist = ''Coldplay'', year = 2005, genre = ''Rock'',
      energy = 1 / 2, valence = 2 / 5,
      tags = [''Rock'', ''Healing'', ''Hope'']\<rparr>]"

definition energetic_songs :: "song list" where
  "energetic_songs = [
     \<lparr>title = ''Eye of the Tiger'', artist = ''Survivor'', year = 1982, genre = ''Rock'',
      energy = 19 / 20, valence = 3 / 4,
      tags = [''Rock'', ''Motivational'', ''80s'']\<rparr>,
     \<lparr>title = ''Lose Yourself'', artist = ''Eminem'', year = 2002, genre = ''Hip-Hop'',
      energy = 9 / 10, valence = 7 / 10,
      tags = [''Hip-Hop'', ''Intense'', ''Powerful'']\<rparr>,
     \<lparr>title = ''Thunderstruck'', artist = ''AC/DC'', year = 1990, genre = ''Rock'',
      energy = 19 / 20, valence = 4 / 5,
      tags = [''Rock'', ''High-energy'', ''Classic'']\<rparr>,
     \<lparr>title = ''Till I Collapse'', artist = ''Eminem ft. Nate Dogg'', year = 2002, genre = ''Hip-Hop'',
      energy = 9 / 10, valence = 3 / 4,
      tags = [''Hip-Hop'', ''Workout'', ''Intense'']\<rparr>,
     \<lparr>title = ''Pump It'', artist = ''The Black Eyed Peas'', year = 2006, genre = ''Hip-Hop'',
      energy = 19 / 20, valence = 4 / 5,
      tags = [''Hip-Hop'', ''Dance'', ''Party'']\<rparr>]"

definition calm_songs :: "song list" where
  "calm_songs = [
     \<lparr>title = ''Weightless'', artist = ''Marconi Union'', year = 2011, genre = ''Ambient'',
      energy = 1 / 10, valence = 3 / 5,
      tags = [''Ambient'', ''Meditation'', ''Peaceful'']\<rparr>,
     \<lparr>title = ''Clair de Lune'', artist = ''Claude Debussy'', year = 1905, genre = ''Classical'',
      energy = 1 / 5, valence = 7 / 10,
      tags = [''Classical'', ''Piano'', ''Serene'']\<rparr>,
     \<lparr>title = ''Breathe Me'', artist = ''Sia'', year = 2004, genre = ''Alternative'',
      energy = 3 / 10, valence = 1 / 2,
      tags = [''Ambient'', ''Gentle'', ''Soothing'']\<rparr>,
     \<lparr>title = ''Holocene'', artist = ''Bon Iver'', year = 2011, genre = ''Indie'',
      energy = 3 / 10, valence = 3 / 5,
      tags = [''Indie'', ''Atmospheric'', ''Calm'']\<rparr>,
     \<lparr>title = ''Intro'', artist = ''The xx'', year = 2009, genre = ''Indie'',
      energy = 1 / 4, valence = 13 / 20,
      tags = [''Indie'', ''Minimal'', ''Dreamy'']\<rparr>]"

definition romantic_songs :: "song list" where
  "romantic_songs = [
     \<lparr>title = ''Perfect'', artist = ''Ed Sheeran'', year = 2017, genre = ''Pop'',
      energy = 2 / 5, valence = 4 / 5,
      tags = [''Pop'', ''Love'', ''Ballad'']\<rparr>,
     \<lparr>title = ''All of Me'', artist = ''John Legend'', year = 2013, genre = ''R&B'',
      energy = 7 / 20, valence = 3 / 4,
      tags = [''R&B'', ''Piano'', ''Tender'']\<rparr>,
     \<lparr>title = ''Thinking Out Loud'', artist = ''Ed Sheeran'', year = 2014, genre = ''Pop'',
      energy = 1 / 2, valence = 4 / 5,
      tags = [''Pop'', ''Romantic'', ''Sweet'']\<rparr>,
     \<lparr>title = ''Can't Help Falling in Love'', artist = ''Elvis Presley'', year = 1961, genre = ''Pop'',
      energy = 3 / 10, valence = 17 / 20,
      tags = [''Classic'', ''Timeless'', ''Love'']\<rparr>,
     \<lparr>title = ''At Last'', artist = ''Etta James'', year = 1960, genre = ''Jazz'',
      energy = 2 / 5, valence = 9 / 10,
      tags = [''Jazz'', ''Soulful'', ''Classic'']\<rparr>]"

definition angry_songs :: "song list" where
  "angry_songs = [
     \<lparr>title = ''Break Stuff'', artist = ''Limp Bizkit'', year = 1999, genre = ''Nu-Metal'',
      energy = 19 / 20, valence = 3 / 10,
      tags = [''Nu-Metal'', ''Aggressive'', ''Raw'']\<rparr>,
     \<lparr>title = ''Killing in the Name'', artist = ''Rage Against the Machine'', year = 1992, genre = ''Rock'',
      energy = 9 / 10, valence = 1 / 4,
      tags = [''Rock'', ''Protest'', ''Intense'']\<rparr>,
     \<lparr>title = ''In the End'', artist = ''Linkin Park'', year = 2000, genre = ''Rock'',
      energy = 4 / 5, valence = 7 / 20,
      tags = [''Rock'', ''Emotional'', ''Powerful'']\<rparr>,
     \<lparr>title = ''Last Resort'', artist = ''Papa Roach'', year = 2000, genre = ''Nu-Metal'',
      energy = 17 / 20, valence = 3 / 10,
      tags = [''Nu-Metal'', ''Intense'', ''Cathartic'']\<rparr>,
     \<lparr>title = ''Bodies'', artist = ''Drowning Pool'', year = 2001, genre = ''Metal'',
      energy = 19 / 20, valence = 2 / 5,
      tags = [''Metal'', ''Aggressive'', ''Heavy'']\<rparr>]"

definition anxious_songs :: "song list" where
  "anxious_songs = [
     \<lparr>title = ''Breathe'', artist = ''Pink Floyd'', year = 1973, genre = ''Rock'',
      energy = 2 / 5, valence = 1 / 2,
      tags = [''Rock'', ''Calming'', ''Progressive'']\<rparr>,
     \<lparr>title = ''Stressed Out'', artist = ''Twenty One Pilots'', year = 2015, genre = ''Alternative'',
      energy = 3 / 5, valence = 2 / 5,
      tags = [''Alternative'', ''Relatable'', ''Modern'']\<rparr>,
     \<lparr>title = ''Everybody Hurts'', artist = ''R.E.M.'', year = 1992, genre = ''Rock'',
      energy = 3 / 10, valence = 9 / 20,
      tags = [''Rock'', ''Comforting'', ''Supportive'']\<rparr>,
     \<lparr>title = ''The Scientist'', artist = ''Coldplay'', year = 2002, genre = ''Alternative'',
      energy = 2 / 5, valence = 1 / 2,
      tags = [''Alternative'', ''Reflective'', ''Soothing'']\<rparr>,
     \<lparr>title = ''Let It Be'', artist = ''The Beatles'', year = 1970, genre = ''Rock'',
      energy = 2 / 5, valence = 3 / 5,
      tags = [''Classic'', ''Reassuring'', ''Peaceful'']\<rparr>]"

definition nostalgic_songs :: "song list" where
  "nostalgic_songs = [
     \<lparr>title = ''Summer of '69'', artist = ''Bryan Adams'', year = 1984, genre = ''Rock'',
      energy = 3 / 4, valence = 7 / 10,
      tags = [''Rock'', ''Classic'', ''Throwback'']\<rparr>,
     \<lparr>title = ''Wonderwall'', artist = ''Oasis'', year = 1995, genre = ''Britpop'',
      energy = 3 / 5, valence = 13 / 20,
      tags = [''Britpop'', ''90s'', ''Iconic'']\<rparr>,
     \<lparr>title = ''Dream On'', artist = ''Aerosmith'', year = 1973, genre = ''Rock'',
      energy = 7 / 10, valence = 3 / 5,
      tags = [''Rock'', ''Classic'', ''Timeless'']\<rparr>,
     \<lparr>title = ''Tears in Heaven'', artist = ''Eric Clapton'', year = 1992, genre = ''Ballad'',
      energy = 3 / 10, valence = 2 / 5,
      tags = [''Ballad'', ''Emotional'', ''Classic'']\<rparr>,
     \<lparr>title = ''The Sound of Silence'', artist = ''Simon & Garfunkel'', year = 1964, genre = ''Folk'',
      energy = 3 / 10, valence = 1 / 2,
      tags = [''Folk'', ''60s'', ''Reflective'']\<rparr>]"

definition confident_songs :: "song list" where
  "confident_songs = [
     \<lparr>title = ''Stronger'', artist = ''Kanye West'', year = 2007, genre = ''Hip-Hop'',
      energy = 17 / 20, valence = 3 / 4,
      tags = [''Hip-Hop'', ''Powerful'', ''Motivational'']\<rparr>,
     \<lparr>title = ''Roar'', artist = ''Katy Perry'', year = 2013, genre = ''Pop'',
      energy = 4 / 5, valence = 4 / 5,
      tags = [''Pop'', ''Empowering'', ''Uplifting'']\<rparr>,
     \<lparr>title = ''We Will Rock You'', artist = ''Queen'', year = 1977, genre = ''Rock'',
      energy = 9 / 10, valence = 3 / 4,
      tags = [''Rock'', ''Anthem'', ''Powerful'']\<rparr>,
     \<lparr>title = ''Survivor'', artist = ''Destiny's Child'', year = 2001, genre = ''R&B'',
      energy = 3 / 4, valence = 4 / 5,
      tags = [''R&B'', ''Empowering'', ''Strong'']\<rparr>,
     \<lparr>title = ''Lose Control'', artist = ''Meduza, Becky Hill'', year = 2019, genre = ''Dance'',
      energy = 9 / 10, valence = 17 / 20,
      tags = [''Dance'', ''Confident'', ''Energetic'']\<rparr>]"

definition song_database :: "(string \<times> song list) list" where
  "song_database = [(''happy'', happy_songs),
     (''sad'', sad_songs),
     (''energetic'', energetic_songs),
     (''calm'', calm_songs),
     (''romantic'', romantic_songs),
     (''angry'', angry_songs),
     (''anxious'', anxious_songs),
     (''nostalgic'', nostalgic_songs),
     (''confident'', confident_songs)]"
subsection \<open>\<^verbatim>\<open>MusicRecommender\<close> and \<^verbatim>\<open>MoodTuneAPI\<close>\<close>

text \<open>
  \<^verbatim>\<open>songs[:limit]\<close>: a negative \<open>limit\<close> counts from the end of the list.
\<close>

definition slice_to :: "'a list \<Rightarrow> int \<Rightarrow> 'a list" where
  "slice_to xs limit =
     (if 0 \<le> limit then take (nat limit) xs
      else take (nat (int (length xs) + limit)) xs)"

text \<open>
  \<^verbatim>\<open>self.song_database.get(mood, self.song_database['calm'])\<close>: the default is
  evaluated before the lookup.
\<close>

definition get_recommendations :: "string \<Rightarrow> int \<Rightarrow> py_error + song list" where
  "get_recommendations mood limit =
     (case getitem song_database ''calm'' of
        Inl e \<Rightarrow> Inl e
      | Inr dflt \<Rightarrow>
          (let songs = (case map_of song_database mood of None \<Rightarrow> dflt | Some s \<Rightarrow> s)
           in Inr (slice_to songs limit)))"

definition get_all_moods :: "string list" where
  "get_all_moods = map fst song_database"

record recommendation_result =
  user_input :: string
  detected_mood :: string
  result_confidence :: rat
  result_intensity :: string
  recommendations :: "song list"
  emotion_scores :: "(string \<times> int) list"

definition analyze_and_recommend :: "string \<Rightarrow> int \<Rightarrow> py_error + recommendation_result" where
  "analyze_and_recommend user_text num_songs =
     (case detect_emotion user_text of
        Inl e \<Rightarrow> Inl e
      | Inr emotion_result \<Rightarrow>
          (case get_recommendations (emotion emotion_result) num_songs of
             Inl e \<Rightarrow> Inl e
           | Inr recs \<Rightarrow>
               Inr \<lparr>user_input = user_text,
                    detected_mood = emotion emotion_result,
                    result_confidence = confidence emotion_result,
                    result_intensity = intensity emotion_result,
                    recommendations = recs,
                    emotion_scores = all_scores emotion_result\<rparr>))"

section \<open>Properties\<close>

subsection \<open>Float rounding stays in the unit interval\<close>

lemma round_half_even_floor: "\<lfloor>y\<rfloor> \<le> round_half_even y"
  by (simp add: round_half_even_def Let_def)

lemma round_half_even_ceiling: "round_half_even y \<le> \<lceil>y\<rceil>"
proof -
  have "\<lfloor>y\<rfloor> + 1 \<le> \<lceil>y\<rceil>" if "y - of_int \<lfloor>y\<rfloor> \<noteq> 0"
    using that by (metis ceiling_altdef eq_iff_diff_eq_0 order_refl)
  moreover have "\<lfloor>y\<rfloor> \<le> \<lceil>y\<rceil>" by (rule floor_le_ceiling)
  ultimately show ?thesis
    by (auto simp: round_half_even_def Let_def)
qed

lemma round_half_even_nonneg: "0 \<le> y \<Longrightarrow> 0 \<le> round_half_even y"
  using round_half_even_floor [of y] by (simp add: order_trans [OF _ round_half_even_floor])

lemma round_half_even_le: "y \<le> of_int m \<Longrightarrow> round_half_even y \<le> m"
  using round_half_even_ceiling [of y] by (meson ceiling_le order_trans)

lemma binary_exponent_le_0: "\<bar>x\<bar> \<le> 1 \<Longrightarrow> binary_exponent x \<le> 0"
proof (cases "1 \<le> \<bar>x\<bar>")
  case True
  assume "\<bar>x\<bar> \<le> 1"
  with True have "\<bar>x\<bar> = 1" by simp
  moreover have "bitlen 1 = 1" by (simp add: bitlen_alt_def)
  ultimately show ?thesis by (simp add: binary_exponent_def)
next
  case False
  then show ?thesis by (simp add: binary_exponent_def bitlen_nonneg)
qed

lemma fl64_unit_interval:
  assumes "0 \<le> x" and "x \<le> 1"
  shows "0 \<le> fl64 x \<and> fl64 x \<le> 1"
proof (cases "x = 0")
  case True
  then show ?thesis by (simp add: fl64_def)
next
  case False
  define n where "n = max (binary_exponent x) (- 1022) - 52"
  define k where "k = nat (- n)"
  have "binary_exponent x \<le> 0"
    using assms by (intro binary_exponent_le_0) simp
  then have n: "n = - int k" by (simp add: n_def k_def)
  have u: "(2::rat) powi n = 1 / 2 ^ k"
    by (simp add: n power_int_minus divide_inverse)
  have fl: "fl64 x = of_int (round_half_even (x * 2 ^ k)) / 2 ^ k"
    using False by (simp add: fl64_def Let_def n_def [symmetric] u)
  have "x * 2 ^ k \<le> of_int (2 ^ k)"
    using assms by (simp add: mult_le_cancel_right1)
  then have hi: "round_half_even (x * 2 ^ k) \<le> 2 ^ k"
    by (rule round_half_even_le)
  have lo: "0 \<le> round_half_even (x * 2 ^ k)"
    using assms by (intro round_half_even_nonneg) simp
  have "(of_int (round_half_even (x * 2 ^ k)) :: rat) \<le> of_int (2 ^ k)"
    using hi by (simp only: of_int_le_iff)
  then have "(of_int (round_half_even (x * 2 ^ k)) :: rat) / 2 ^ k \<le> 1"
    by (simp add: divide_le_eq)
  moreover have "(0::rat) \<le> of_int (round_half_even (x * 2 ^ k)) / 2 ^ k"
    using lo by simp
  ultimately show ?thesis by (simp add: fl)
qed

lemma py_round_unit_interval:
  assumes "0 \<le> x" and "x \<le> 1"
  shows "0 \<le> py_round x 2 \<and> py_round x 2 \<le> 1"
proof -
  have "x * 10 ^ 2 \<le> of_int 100" using assms by simp
  then have hi: "round_half_even (x * 10 ^ 2) \<le> 100" by (rule round_half_even_le)
  have lo: "0 \<le> round_half_even (x * 10 ^ 2)"
    using assms by (intro round_half_even_nonneg) simp
  have "(of_int (round_half_even (x * 10 ^ 2)) :: rat) \<le> of_int 100"
    using hi by (simp only: of_int_le_iff)
  then have le1: "(of_int (round_half_even (x * 10 ^ 2)) :: rat) / 10 ^ 2 \<le> 1" by simp
  have "(0::rat) \<le> of_int (round_half_even (x * 10 ^ 2)) / 10 ^ 2"
    using lo by simp
  from this le1 show ?thesis unfolding py_round_def by (rule fl64_unit_interval)
qed


subsection \<open>Scores and the first maximum\<close>

lemma add_matches_nonneg:
  "0 \<le> weight \<Longrightarrow> 0 \<le> score \<Longrightarrow> 0 \<le> add_matches weight kws text_clean score"
  by (induction kws arbitrary: score) simp_all

lemma emotion_score_nonneg: "0 \<le> emotion_score ks text_clean"
  by (simp add: emotion_score_def add_matches_nonneg)

lemma compute_scores_keys:
  "map fst (compute_scores text_clean) = map fst emotion_keywords"
  by (simp add: compute_scores_def case_prod_beta comp_def)

lemma emotion_keywords_keys:
  "map fst emotion_keywords =
     [''happy'', ''sad'', ''energetic'', ''calm'', ''romantic'', ''angry'', ''anxious'',
      ''nostalgic'', ''confident'']"
  by (simp add: emotion_keywords_def)

lemma compute_scores_distinct: "distinct (map fst (compute_scores text_clean))"
  by (simp add: compute_scores_keys emotion_keywords_keys)

lemma compute_scores_nonneg: "p \<in> set (compute_scores text_clean) \<Longrightarrow> 0 \<le> snd p"
  by (auto simp: compute_scores_def emotion_score_nonneg)

lemma compute_scores_not_Nil: "compute_scores text_clean \<noteq> []"
  by (simp add: compute_scores_def emotion_keywords_def)

lemma max_from_split:
  "\<exists>pre mx post. (best, v) # rest = pre @ (max_from best v rest, mx) # post
      \<and> (\<forall>p\<in>set pre. snd p < mx) \<and> (\<forall>p\<in>set post. snd p \<le> mx)"
proof (induction rest arbitrary: best v)
  case Nil
  have "[(best, v)] = [] @ (max_from best v [], v) # []" by simp
  then show ?case by fastforce
next
  case (Cons a rest)
  obtain k w where a: "a = (k, w)" by (cases a)
  show ?case
  proof (cases "v < w")
    case True
    from Cons.IH [of k w] obtain pre mx post where
      split: "(k, w) # rest = pre @ (max_from k w rest, mx) # post"
      and lt: "\<forall>p\<in>set pre. snd p < mx" and le: "\<forall>p\<in>set post. snd p \<le> mx"
      by blast
    have "(k, w) \<in> set (pre @ (max_from k w rest, mx) # post)"
      by (simp flip: split)
    then have "w \<le> mx" using lt le by force
    with True have "v < mx" by simp
    then have "\<forall>p\<in>set ((best, v) # pre). snd p < mx" using lt by simp
    moreover have "max_from best v (a # rest) = max_from k w rest"
      using True by (simp add: a)
    then have "(best, v) # a # rest = ((best, v) # pre) @ (max_from best v (a # rest), mx) # post"
      by (simp add: a split [symmetric])
    ultimately show ?thesis using le by blast
  next
    case False
    from Cons.IH [of best v] obtain pre mx post where
      split: "(best, v) # rest = pre @ (max_from best v rest, mx) # post"
      and lt: "\<forall>p\<in>set pre. snd p < mx" and le: "\<forall>p\<in>set post. snd p \<le> mx"
      by blast
    have m: "max_from best v (a # rest) = max_from best v rest"
      using False by (simp add: a)
    show ?thesis
    proof (cases pre)
      case Nil
      from split [unfolded Nil append_Nil] have eq: "best = max_from best v rest" "v = mx" "rest = post" by blast+
      have "(best, v) # a # rest = [] @ (max_from best v (a # rest), mx) # (a # post)"
        using eq m by simp
      moreover have "\<forall>p\<in>set (a # post). snd p \<le> mx"
        using le False eq by (simp add: a)
      ultimately show ?thesis by fastforce
    next
      case (Cons b pre')
      with split have b: "b = (best, v)" and rest: "rest = pre' @ (max_from best v rest, mx) # post"
        by simp_all
      have "v < mx" using lt Cons b by simp
      with False have "w < mx" by simp
      then have "\<forall>p\<in>set ((best, v) # a # pre'). snd p < mx"
        using lt Cons b by (simp add: a)
      moreover have "(best, v) # a # rest
          = ((best, v) # a # pre') @ (max_from best v (a # rest), mx) # post"
        using rest m by simp
      ultimately show ?thesis using le by blast
    qed
  qed
qed

lemma max_key_split:
  assumes "scores \<noteq> []"
  shows "\<exists>m pre mx post. max_key scores = Inr m \<and> scores = pre @ (m, mx) # post
      \<and> (\<forall>p\<in>set pre. snd p < mx) \<and> (\<forall>p\<in>set post. snd p \<le> mx)"
proof -
  from assms obtain k v rest where s: "scores = (k, v) # rest"
    by (cases scores) auto
  show ?thesis using max_from_split [of k v rest] by (simp add: s)
qed

lemma getitem_split:
  assumes "distinct (map fst d)" and "d = pre @ (k, v) # post"
  shows "getitem d k = Inr v"
proof -
  have "(k, v) \<in> set d" using assms(2) by simp
  with assms(1) have "map_of d k = Some v" by (rule map_of_is_SomeI)
  then show ?thesis by (simp add: getitem_def)
qed


subsection \<open>The substring test\<close>

lemma starts_with_iff: "starts_with s kw \<longleftrightarrow> (\<exists>post. s = kw @ post)"
  by (induction s kw rule: starts_with.induct) auto

lemma str_contains_iff: "str_contains s kw \<longleftrightarrow> (\<exists>pre post. s = pre @ kw @ post)"
proof (induction s)
  case Nil
  then show ?case by simp
next
  case (Cons c cs)
  show ?case
  proof
    assume "str_contains (c # cs) kw"
    then consider "starts_with (c # cs) kw" | "str_contains cs kw" by auto
    then show "\<exists>pre post. c # cs = pre @ kw @ post"
    proof cases
      case 1
      then obtain post where "c # cs = [] @ kw @ post" by (auto simp: starts_with_iff)
      then show ?thesis by blast
    next
      case 2
      then obtain pre post where "cs = pre @ kw @ post" using Cons.IH by blast
      then have "c # cs = (c # pre) @ kw @ post" by simp
      then show ?thesis by blast
    qed
  next
    assume "\<exists>pre post. c # cs = pre @ kw @ post"
    then obtain pre post where eq: "c # cs = pre @ kw @ post" by blast
    show "str_contains (c # cs) kw"
    proof (cases pre)
      case Nil
      with eq have "starts_with (c # cs) kw" by (auto simp: starts_with_iff)
      then show ?thesis by simp
    next
      case (Cons d pre')
      with eq have "cs = pre' @ kw @ post" by simp
      then have "str_contains cs kw" using Cons.IH by blast
      then show ?thesis by simp
    qed
  qed
qed

subsection \<open>The two branches of \<open>detect_emotion\<close>\<close>

lemma add_matches_no_match:
  "\<forall>kw\<in>set kws. \<not> str_contains text_clean kw \<Longrightarrow> add_matches weight kws text_clean score = score"
  by (induction kws arbitrary: score) simp_all

lemma elem_le_sum_list:
  fixes xs :: "int list"
  shows "\<forall>y\<in>set xs. 0 \<le> y \<Longrightarrow> x \<in> set xs \<Longrightarrow> x \<le> sum_list xs"
proof (induction xs)
  case Nil
  then show ?case by simp
next
  case (Cons a xs)
  have nn: "0 \<le> sum_list xs" using Cons.prems(1) by (simp add: sum_list_nonneg)
  show ?case
  proof (cases "x = a")
    case True
    then show ?thesis using nn by simp
  next
    case False
    then have "x \<le> sum_list xs" using Cons by simp
    moreover have "0 \<le> a" using Cons.prems(1) by simp
    ultimately show ?thesis by simp
  qed
qed

lemma py_truediv_unit:
  assumes "0 \<le> a" and "a < b"
  shows "\<exists>q. py_truediv a b = Inr q \<and> q = fl64 (of_int a / of_int b) \<and> 0 \<le> q \<and> q \<le> 1"
proof -
  have b: "0 < b" using assms by simp
  have "(0::rat) \<le> of_int a / of_int b" using assms b by simp
  moreover have "(of_int a :: rat) / of_int b \<le> 1" using assms b by simp
  ultimately have q: "0 \<le> fl64 (of_int a / of_int b) \<and> fl64 (of_int a / of_int b) \<le> 1"
    by (rule fl64_unit_interval)
  have "(1::rat) < 2 ^ 1024" by (rule one_less_power) simp_all
  with q have "\<not> 2 ^ 1024 \<le> \<bar>fl64 (of_int a / of_int b)\<bar>" by simp
  then show ?thesis using b q by (simp add: py_truediv_def Let_def)
qed

lemma split_Max:
  fixes scores :: "(string \<times> int) list"
  assumes "scores = pre @ (m, mx) # post"
    and "\<forall>p\<in>set pre. snd p < mx" and "\<forall>p\<in>set post. snd p \<le> mx"
  shows "Max (snd ` set scores) = mx"
proof (rule Max_eqI)
  show "finite (snd ` set scores)" by simp
  show "mx \<in> snd ` set scores" using assms(1) by force
  fix y assume "y \<in> snd ` set scores"
  then show "y \<le> mx" using assms by force
qed

lemma detect_emotion_no_match:
  assumes "\<not> list_ex (\<lambda>v. v \<noteq> 0) (map snd (compute_scores (normalize_text text)))"
  shows "detect_emotion text =
    Inr \<lparr>emotion = ''calm'', confidence = 1 / 2, intensity = ''low'',
         all_scores = compute_scores (normalize_text text)\<rparr>"
  using assms by (simp add: detect_emotion_def normalize_text_def Let_def)

lemma detect_emotion_match:
  assumes nz: "list_ex (\<lambda>v. v \<noteq> 0) (map snd scores)"
    and scores: "scores = compute_scores (normalize_text text)"
  shows "\<exists>pre m mx post q.
      scores = pre @ (m, mx) # post
      \<and> (\<forall>p\<in>set pre. snd p < mx) \<and> (\<forall>p\<in>set post. snd p \<le> mx)
      \<and> max_key scores = Inr m \<and> getitem scores m = Inr mx
      \<and> py_truediv mx (sum_list (map snd scores) + 1) = Inr q \<and> 0 \<le> q \<and> q \<le> 1
      \<and> detect_emotion text =
          Inr \<lparr>emotion = m, confidence = py_round (min q 1) 2,
               intensity = intensity_of mx, all_scores = scores\<rparr>"
proof -
  have "scores \<noteq> []" by (simp add: scores compute_scores_not_Nil)
  then obtain m pre mx post where mk: "max_key scores = Inr m"
    and split: "scores = pre @ (m, mx) # post"
    and lt: "\<forall>p\<in>set pre. snd p < mx" and le: "\<forall>p\<in>set post. snd p \<le> mx"
    using max_key_split by blast
  have "distinct (map fst scores)" by (simp add: scores compute_scores_distinct)
  then have gi: "getitem scores m = Inr mx" using split by (rule getitem_split)
  have nonneg: "\<forall>y\<in>set (map snd scores). 0 \<le> y"
    by (auto simp: scores compute_scores_nonneg)
  have "mx \<in> set (map snd scores)" using split by force
  then have "0 \<le> mx" and "mx \<le> sum_list (map snd scores)"
    using nonneg elem_le_sum_list by blast+
  then have "0 \<le> mx" and "mx < sum_list (map snd scores) + 1" by simp_all
  then obtain q where q: "py_truediv mx (sum_list (map snd scores) + 1) = Inr q"
    and q01: "0 \<le> q" "q \<le> 1"
    using py_truediv_unit by blast
  have "detect_emotion text =
      Inr \<lparr>emotion = m, confidence = py_round (min q 1) 2,
           intensity = intensity_of mx, all_scores = scores\<rparr>"
    using nz mk gi q
    by (simp add: detect_emotion_def Let_def scores normalize_text_def)
  then show ?thesis using split lt le mk gi q q01 by blast
qed

subsection \<open>Claims\<close>

lemma scores_happy_sad:
  "compute_scores (normalize_text ''happy sad'') =
     [(''happy'', 3), (''sad'', 3), (''energetic'', 0), (''calm'', 0), (''romantic'', 0),
      (''angry'', 0), (''anxious'', 0), (''nostalgic'', 0), (''confident'', 0)]"
  by code_simp

text \<open>
  C1. When some mood has a non-zero score, \<open>detect_emotion\<close> returns a mood whose score
  is the maximum, and every mood before it in the declaration order (happy, sad,
  energetic, calm, romantic, angry, anxious, nostalgic, confident) has a strictly
  smaller score: among the moods sharing the maximum the first one is returned.
\<close>

theorem detect_emotion_first_maximum:
  assumes "\<exists>p\<in>set (compute_scores (normalize_text text)). snd p \<noteq> 0"
  shows "\<exists>r pre mx post.
      detect_emotion text = Inr r
      \<and> all_scores r = compute_scores (normalize_text text)
      \<and> map fst (all_scores r) =
          [''happy'', ''sad'', ''energetic'', ''calm'', ''romantic'', ''angry'', ''anxious'',
           ''nostalgic'', ''confident'']
      \<and> all_scores r = pre @ (emotion r, mx) # post
      \<and> (\<forall>p\<in>set pre. snd p < mx) \<and> (\<forall>p\<in>set post. snd p \<le> mx)"
proof -
  define scores where "scores = compute_scores (normalize_text text)"
  have "list_ex (\<lambda>v. v \<noteq> 0) (map snd scores)"
    using assms by (auto simp: scores_def list_ex_iff)
  from detect_emotion_match [OF this scores_def]
  obtain pre m mx post q where split: "scores = pre @ (m, mx) # post"
    and lt: "\<forall>p\<in>set pre. snd p < mx" and le: "\<forall>p\<in>set post. snd p \<le> mx"
    and det: "detect_emotion text =
          Inr \<lparr>emotion = m, confidence = py_round (min q 1) 2,
               intensity = intensity_of mx, all_scores = scores\<rparr>"
    by blast
  let ?r = "\<lparr>emotion = m, confidence = py_round (min q 1) 2,
               intensity = intensity_of mx, all_scores = scores\<rparr>"
  show ?thesis
  proof (intro exI conjI)
    show "detect_emotion text = Inr ?r" by (rule det)
    show "all_scores ?r = compute_scores (normalize_text text)" by (simp add: scores_def)
    show "map fst (all_scores ?r) =
      [''happy'', ''sad'', ''energetic'', ''calm'', ''romantic'', ''angry'', ''anxious'',
       ''nostalgic'', ''confident'']"
      by (simp add: scores_def compute_scores_keys emotion_keywords_keys)
    show "all_scores ?r = pre @ (emotion ?r, mx) # post" using split by simp
    show "\<forall>p\<in>set pre. snd p < mx" by (rule lt)
    show "\<forall>p\<in>set post. snd p \<le> mx" by (rule le)
  qed
qed

theorem detect_emotion_first_maximum_witness:
  "\<exists>r. detect_emotion ''happy sad'' = Inr r \<and> emotion r = ''happy''
     \<and> map_of (all_scores r) ''happy'' = Some 3 \<and> map_of (all_scores r) ''sad'' = Some 3"
proof -
  have "\<exists>p\<in>set (compute_scores (normalize_text ''happy sad'')). snd p \<noteq> 0"
    by (simp add: scores_happy_sad)
  from detect_emotion_first_maximum [OF this]
  obtain r pre mx post where det: "detect_emotion ''happy sad'' = Inr r"
    and sc: "all_scores r = compute_scores (normalize_text ''happy sad'')"
    and split: "all_scores r = pre @ (emotion r, mx) # post"
    and lt: "\<forall>p\<in>set pre. snd p < mx"
    by blast
  have mem: "(emotion r, mx) \<in> set (all_scores r)" using split by simp
  have "emotion r = ''happy''"
  proof (cases pre)
    case Nil
    then show ?thesis using split by (simp add: sc scores_happy_sad)
  next
    case (Cons a pre')
    then have "a = (''happy'', 3)" using split by (simp add: sc scores_happy_sad)
    then have "3 < mx" using lt Cons by simp
    moreover have "mx \<le> 3" using mem by (auto simp: sc scores_happy_sad)
    ultimately show ?thesis by simp
  qed
  then show ?thesis using det by (auto simp: sc scores_happy_sad)
qed

lemma detect_emotion_all_scores:
  assumes "detect_emotion text = Inr r"
  shows "all_scores r = compute_scores (normalize_text text)"
proof (cases "list_ex (\<lambda>v. v \<noteq> 0) (map snd (compute_scores (normalize_text text)))")
  case True
  from detect_emotion_match [OF True refl] assms show ?thesis by auto
next
  case False
  from detect_emotion_no_match [OF False] assms show ?thesis by auto
qed

lemma round_half_even_error: "\<bar>of_int (round_half_even y) - y\<bar> \<le> 1 / 2"
proof -
  define f where "f = \<lfloor>y\<rfloor>"
  define d where "d = y - of_int f"
  have d: "0 \<le> d" "d < 1" unfolding d_def f_def by linarith+
  have y: "y = of_int f + d" by (simp add: d_def)
  have r: "round_half_even y =
      (if d < 1 / 2 then f else if 1 / 2 < d then f + 1 else if even f then f else f + 1)"
    by (simp add: round_half_even_def Let_def d_def f_def)
  consider "round_half_even y = f" "d \<le> 1 / 2" | "round_half_even y = f + 1" "1 / 2 \<le> d"
    unfolding r by (cases "d < 1 / 2"; cases "1 / 2 < d"; cases "even f") simp_all
  then show ?thesis
  proof cases
    case 1
    then show ?thesis using d by (simp add: y)
  next
    case 2
    then show ?thesis using d by (simp add: y abs_if)
  qed
qed

lemma fl64_error_unit:
  assumes "0 \<le> x" and "x \<le> 1"
  shows "\<bar>fl64 x - x\<bar> \<le> 1 / 2 ^ 53"
proof (cases "x = 0")
  case True
  then show ?thesis by (simp add: fl64_def)
next
  case False
  define n where "n = max (binary_exponent x) (- 1022) - 52"
  define k where "k = nat (- n) - 52"
  have "binary_exponent x \<le> 0"
    using assms by (intro binary_exponent_le_0) simp
  then have n: "n = - int (k + 52)" by (simp add: n_def k_def)
  have u: "(2::rat) powi n = 1 / 2 ^ (k + 52)"
    by (simp only: n power_int_minus power_int_of_nat) (simp add: divide_inverse)
  have fl: "fl64 x = of_int (round_half_even (x * 2 ^ (k + 52))) / 2 ^ (k + 52)"
    using False by (simp add: fl64_def Let_def n_def [symmetric] u)
  define y where "y = x * 2 ^ (k + 52)"
  have "fl64 x - x = (of_int (round_half_even y) - y) / 2 ^ (k + 52)"
    by (simp add: fl y_def diff_divide_distrib)
  then have "\<bar>fl64 x - x\<bar> = \<bar>of_int (round_half_even y) - y\<bar> / 2 ^ (k + 52)"
    by (simp add: abs_divide)
  also have "\<dots> \<le> (1 / 2) / 2 ^ (k + 52)"
    by (intro divide_right_mono round_half_even_error) simp
  also have "\<dots> = 1 / (2 * 2 ^ (k + 52))" by simp
  also have "\<dots> = 1 / 2 ^ Suc (k + 52)" by (simp only: power_Suc)
  also have "\<dots> \<le> 1 / 2 ^ 53"
    by (intro divide_left_mono power_increasing) simp_all
  finally show ?thesis .
qed

text \<open>
  \<open>binary_exponent x\<close> is the exponent \<open>e\<close> with \<open>2 powi e \<le> \<bar>x\<bar> < 2 powi (e + 1)\<close>,
  and \<open>fl64 x\<close> is a multiple of the unit \<open>2 powi (e - 52)\<close> at most half a unit
  away from \<open>x\<close>: the nearest number with a significand of 53 bits.
\<close>

lemma binary_exponent_bounds:
  assumes "x \<noteq> 0"
  shows "2 powi binary_exponent x \<le> \<bar>x\<bar> \<and> \<bar>x\<bar> < 2 powi (binary_exponent x + 1)"
proof (cases "1 \<le> \<bar>x\<bar>")
  case True
  define n where "n = \<lfloor>\<bar>x\<bar>\<rfloor>"
  have n1: "1 \<le> n" using True by (simp add: n_def le_floor_iff)
  then have n0: "0 < n" by simp
  define b where "b = nat (bitlen n - 1)"
  from bitlen_bounds [OF n0] have lo: "2 ^ b \<le> n" and hi: "n < 2 ^ nat (bitlen n)"
    by (simp_all add: b_def)
  have "1 \<le> bitlen n" using n0 by (simp add: bitlen_alt_def)
  then have bl: "bitlen n = int b + 1" by (simp add: b_def)
  then have hi': "n < 2 ^ Suc b" using hi by (simp add: nat_add_distrib)
  have e: "binary_exponent x = int b" using True by (simp add: binary_exponent_def n_def [symmetric] bl)
  have "(of_int (2 ^ b) :: rat) \<le> of_int n" using lo by (simp only: of_int_le_iff)
  then have "(2::rat) ^ b \<le> of_int n" by (simp only: of_int_power of_int_numeral)
  moreover have "of_int n \<le> \<bar>x\<bar>" by (simp add: n_def)
  ultimately have l: "(2::rat) ^ b \<le> \<bar>x\<bar>" by (rule order_trans)
  have "n + 1 \<le> 2 ^ Suc b" using hi' by simp
  then have "(of_int (n + 1) :: rat) \<le> of_int (2 ^ Suc b)" by (simp only: of_int_le_iff)
  then have "(of_int (n + 1) :: rat) \<le> 2 ^ Suc b" by (simp only: of_int_power of_int_numeral)
  moreover have "\<bar>x\<bar> < of_int (n + 1)" unfolding n_def by linarith
  ultimately have h: "\<bar>x\<bar> < (2::rat) ^ Suc b" by (rule less_le_trans [rotated])
  have p1: "(2::rat) powi int b = 2 ^ b" by (rule power_int_of_nat)
  have "int b + 1 = int (Suc b)" by simp
  then have p2: "(2::rat) powi (int b + 1) = 2 ^ Suc b" by (simp only: power_int_of_nat)
  show ?thesis unfolding e p1 p2 using l h by blast
next
  case False
  define y where "y = 1 / \<bar>x\<bar>"
  have x0: "0 < \<bar>x\<bar>" using assms by simp
  have x1: "\<bar>x\<bar> < 1" using False by simp
  have y1: "1 < y" using x0 x1 by (simp add: y_def)
  define m where "m = \<lceil>y\<rceil> - 1"
  have my: "of_int m < y" "y \<le> of_int m + 1" unfolding m_def by linarith+
  have "(1::rat) < of_int m + 1" using y1 my by linarith
  then have "(of_int 0 :: rat) < of_int m" by simp
  then have m0: "0 < m" by (simp only: of_int_less_iff)
  define b where "b = nat (bitlen m - 1)"
  from bitlen_bounds [OF m0] have lo: "2 ^ b \<le> m" and hi: "m < 2 ^ nat (bitlen m)"
    by (simp_all add: b_def)
  have "1 \<le> bitlen m" using m0 by (simp add: bitlen_alt_def)
  then have bl: "bitlen m = int (Suc b)" by (simp add: b_def)
  then have "nat (bitlen m) = Suc b" by (simp only: nat_int)
  then have hi': "m < 2 ^ Suc b" using hi by (simp only:)
  have e: "binary_exponent x = - int (Suc b)"
    using False by (simp only: binary_exponent_def if_False y_def [symmetric] m_def [symmetric] bl)
  have "(of_int (2 ^ b) :: rat) \<le> of_int m" using lo by (simp only: of_int_le_iff)
  then have "(2::rat) ^ b \<le> of_int m" by (simp only: of_int_power of_int_numeral)
  then have ylo: "(2::rat) ^ b < y" using my(1) by (rule le_less_trans)
  have "m + 1 \<le> 2 ^ Suc b" using hi' by simp
  then have "(of_int (m + 1) :: rat) \<le> of_int (2 ^ Suc b)" by (simp only: of_int_le_iff)
  then have "(of_int m :: rat) + 1 \<le> 2 ^ Suc b"
    by (simp only: of_int_power of_int_numeral of_int_add of_int_1)
  with my(2) have yhi: "y \<le> (2::rat) ^ Suc b" by (rule order_trans)
  have xy: "\<bar>x\<bar> = 1 / y" using x0 by (simp add: y_def)
  have y0: "0 < y" using y1 by simp
  have l: "1 / (2::rat) ^ Suc b \<le> \<bar>x\<bar>"
    unfolding xy using yhi y0 by (intro divide_left_mono) simp_all
  have h: "\<bar>x\<bar> < 1 / (2::rat) ^ b"
    unfolding xy using ylo y0 by (intro divide_strict_left_mono) simp_all
  have p1: "(2::rat) powi (- int (Suc b)) = 1 / 2 ^ Suc b"
    by (simp only: power_int_minus power_int_of_nat inverse_eq_divide)
  have "- int (Suc b) + 1 = - int b" by simp
  then have p2: "(2::rat) powi (- int (Suc b) + 1) = 1 / 2 ^ b"
    by (simp only: power_int_minus power_int_of_nat inverse_eq_divide)
  show ?thesis unfolding e p1 p2 using l h by blast
qed

lemma fl64_nearest:
  assumes "x \<noteq> 0"
  defines "u \<equiv> (2::rat) powi (max (binary_exponent x) (- 1022) - 52)"
  shows "\<exists>n::int. fl64 x = of_int n * u \<and> \<bar>fl64 x - x\<bar> \<le> u / 2"
proof -
  have u0: "0 < u" by (simp add: u_def)
  have fl: "fl64 x = of_int (round_half_even (x / u)) * u"
    using assms(1) by (simp add: fl64_def Let_def u_def)
  have "fl64 x - x = (of_int (round_half_even (x / u)) - x / u) * u"
    using u0 by (simp add: fl left_diff_distrib)
  then have "\<bar>fl64 x - x\<bar> = \<bar>of_int (round_half_even (x / u)) - x / u\<bar> * u"
    using u0 by (simp add: abs_mult)
  also have "\<dots> \<le> (1 / 2) * u"
    using u0 by (intro mult_right_mono round_half_even_error) simp
  finally have "\<bar>fl64 x - x\<bar> \<le> u / 2" by simp
  with fl show ?thesis by blast
qed

lemma fl64_43: "fl64 (43 / 100) = 7746191359077253 / 18014398509481984"
  by code_simp


text \<open>
  C2. \<open>detect_emotion\<close> returns for every text, and the confidence it returns lies
  between 0 and 1. When some mood has a non-zero score, the confidence is the float
  quotient \<open>q\<close> of the winning score (the score of the returned mood, the maximum of all
  scores) by the sum of all scores plus one, clamped by \<open>min _ 1\<close> and rounded by
  \<^verbatim>\<open>round(_, 2)\<close>. The quotient \<open>q\<close> differs from the exact quotient by at most
  \<open>2 ^ -53\<close>; the confidence is the float nearest to \<open>k / 100\<close>, where the integer
  \<open>k\<close> from 0 to 100 is the half-even rounding of \<open>100 * min q 1\<close>, so that
  \<open>k / 100\<close> is a two-decimal number within \<open>1 / 200\<close> of the clamped quotient, and
  the confidence differs from \<open>k / 100\<close> by at most \<open>2 ^ -53\<close>.
\<close>

theorem detect_emotion_confidence:
  "\<exists>r. detect_emotion text = Inr r
     \<and> all_scores r = compute_scores (normalize_text text)
     \<and> 0 \<le> confidence r \<and> confidence r \<le> 1
     \<and> ((\<exists>p\<in>set (all_scores r). snd p \<noteq> 0) \<longrightarrow>
          (\<exists>mx q k. map_of (all_scores r) (emotion r) = Some mx
             \<and> mx = Max (snd ` set (all_scores r))
             \<and> py_truediv mx (sum_list (map snd (all_scores r)) + 1) = Inr q
             \<and> q = fl64 (of_int mx / of_int (sum_list (map snd (all_scores r)) + 1))
             \<and> \<bar>q - of_int mx / of_int (sum_list (map snd (all_scores r)) + 1)\<bar> \<le> 1 / 2 ^ 53
             \<and> confidence r = py_round (min q 1) 2
             \<and> 0 \<le> k \<and> k \<le> 100
             \<and> k = round_half_even (100 * min q 1)
             \<and> \<bar>of_int k / 100 - min q 1\<bar> \<le> 1 / 200
             \<and> confidence r = fl64 (of_int k / 100)
             \<and> \<bar>confidence r - of_int k / 100\<bar> \<le> 1 / 2 ^ 53))"
proof (cases "list_ex (\<lambda>v. v \<noteq> 0) (map snd (compute_scores (normalize_text text)))")
  case False
  let ?r = "\<lparr>emotion = ''calm'', confidence = 1 / 2, intensity = ''low'',
         all_scores = compute_scores (normalize_text text)\<rparr>"
  have none: "\<not> (\<exists>p\<in>set (all_scores ?r). snd p \<noteq> 0)"
    using False by (auto simp: list_ex_iff)
  have "detect_emotion text = Inr ?r" by (rule detect_emotion_no_match [OF False])
  moreover have "all_scores ?r = compute_scores (normalize_text text)" by simp
  moreover have "0 \<le> confidence ?r" "confidence ?r \<le> 1" by simp_all
  ultimately show ?thesis using none by blast
next
  case True
  define scores where "scores = compute_scores (normalize_text text)"
  from detect_emotion_match [OF True [folded scores_def] scores_def]
  obtain pre m mx post q where split: "scores = pre @ (m, mx) # post"
    and lt: "\<forall>p\<in>set pre. snd p < mx" and le: "\<forall>p\<in>set post. snd p \<le> mx"
    and gi: "getitem scores m = Inr mx"
    and q: "py_truediv mx (sum_list (map snd scores) + 1) = Inr q"
    and q01: "0 \<le> q" "q \<le> 1"
    and det: "detect_emotion text =
          Inr \<lparr>emotion = m, confidence = py_round (min q 1) 2,
               intensity = intensity_of mx, all_scores = scores\<rparr>"
    by blast
  let ?r = "\<lparr>emotion = m, confidence = py_round (min q 1) 2,
               intensity = intensity_of mx, all_scores = scores\<rparr>"
  let ?exact = "(of_int mx :: rat) / of_int (sum_list (map snd scores) + 1)"
  define k where "k = round_half_even (100 * min q 1)"
  have m01: "0 \<le> min q 1" "min q 1 \<le> 1" using q01 by simp_all
  have conf: "0 \<le> py_round (min q 1) 2 \<and> py_round (min q 1) 2 \<le> 1"
    using m01 by (rule py_round_unit_interval)
  have "100 * min q 1 \<le> of_int 100" using m01 by simp
  then have k_hi: "k \<le> 100" unfolding k_def by (rule round_half_even_le)
  have k_lo: "0 \<le> k" unfolding k_def using m01 by (intro round_half_even_nonneg) simp
  have k_eq: "py_round (min q 1) 2 = fl64 (of_int k / 100)"
    by (simp add: py_round_def k_def mult.commute)
  have "\<bar>of_int k - 100 * min q 1\<bar> \<le> 1 / 2"
    unfolding k_def by (rule round_half_even_error)
  then have k_err: "\<bar>of_int k / 100 - min q 1\<bar> \<le> 1 / 200"
    by (simp add: abs_if split: if_splits)
  have k01: "(0::rat) \<le> of_int k / 100" "(of_int k :: rat) / 100 \<le> 1"
    using k_lo k_hi by simp_all
  have c_err: "\<bar>fl64 (of_int k / 100) - of_int k / 100\<bar> \<le> 1 / 2 ^ 53"
    using k01 by (rule fl64_error_unit)
  have mo: "map_of scores m = Some mx"
    using gi by (simp add: getitem_def split: option.splits)
  have mx: "mx = Max (snd ` set scores)"
    using split_Max [OF split lt le] by simp
  have qv: "q = fl64 ?exact"
    using q by (auto simp: py_truediv_def Let_def split: if_splits)
  have nonneg: "\<forall>y\<in>set (map snd scores). 0 \<le> y"
    by (auto simp: scores_def compute_scores_nonneg)
  have "mx \<in> set (map snd scores)" using split by force
  then have "0 \<le> mx" and "mx \<le> sum_list (map snd scores)"
    using nonneg elem_le_sum_list by blast+
  then have "0 \<le> ?exact" and "?exact \<le> 1" by simp_all
  then have q_err: "\<bar>q - ?exact\<bar> \<le> 1 / 2 ^ 53"
    unfolding qv by (rule fl64_error_unit)
  show ?thesis
  proof (intro exI conjI impI)
    show "detect_emotion text = Inr ?r" by (rule det)
    show "all_scores ?r = compute_scores (normalize_text text)" by (simp add: scores_def)
    show "0 \<le> confidence ?r" using conf by simp
    show "confidence ?r \<le> 1" using conf by simp
    show "map_of (all_scores ?r) (emotion ?r) = Some mx" using mo by simp
    show "mx = Max (snd ` set (all_scores ?r))" using mx by simp
    show "py_truediv mx (sum_list (map snd (all_scores ?r)) + 1) = Inr q" using q by simp
    show "q = fl64 (of_int mx / of_int (sum_list (map snd (all_scores ?r)) + 1))"
      using qv by simp
    show "\<bar>q - of_int mx / of_int (sum_list (map snd (all_scores ?r)) + 1)\<bar> \<le> 1 / 2 ^ 53"
      using q_err by simp
    show "confidence ?r = py_round (min q 1) 2" by simp
    show "0 \<le> k" by (rule k_lo)
    show "k \<le> 100" by (rule k_hi)
    show "k = round_half_even (100 * min q 1)" by (rule k_def)
    show "\<bar>of_int k / 100 - min q 1\<bar> \<le> 1 / 200" by (rule k_err)
    show "confidence ?r = fl64 (of_int k / 100)" using k_eq by simp
    show "\<bar>confidence ?r - of_int k / 100\<bar> \<le> 1 / 2 ^ 53" using c_err k_eq by simp
  qed
qed

theorem detect_emotion_confidence_witness:
  "\<exists>r q. detect_emotion ''happy sad'' = Inr r
     \<and> py_truediv 3 7 = Inr q \<and> \<bar>q - 3 / 7\<bar> \<le> 1 / 2 ^ 53
     \<and> confidence r = py_round (min q 1) 2
     \<and> confidence r = fl64 (43 / 100)
     \<and> confidence r = 7746191359077253 / 18014398509481984
     \<and> \<bar>confidence r - 43 / 100\<bar> \<le> 1 / 2 ^ 53"
proof -
  from detect_emotion_confidence [of "''happy sad''"]
  obtain r where det: "detect_emotion ''happy sad'' = Inr r"
    and sc: "all_scores r = compute_scores (normalize_text ''happy sad'')"
    and imp: "(\<exists>p\<in>set (all_scores r). snd p \<noteq> 0) \<longrightarrow>
          (\<exists>mx q k. map_of (all_scores r) (emotion r) = Some mx
             \<and> mx = Max (snd ` set (all_scores r))
             \<and> py_truediv mx (sum_list (map snd (all_scores r)) + 1) = Inr q
             \<and> q = fl64 (of_int mx / of_int (sum_list (map snd (all_scores r)) + 1))
             \<and> \<bar>q - of_int mx / of_int (sum_list (map snd (all_scores r)) + 1)\<bar> \<le> 1 / 2 ^ 53
             \<and> confidence r = py_round (min q 1) 2
             \<and> 0 \<le> k \<and> k \<le> 100
             \<and> k = round_half_even (100 * min q 1)
             \<and> \<bar>of_int k / 100 - min q 1\<bar> \<le> 1 / 200
             \<and> confidence r = fl64 (of_int k / 100)
             \<and> \<bar>confidence r - of_int k / 100\<bar> \<le> 1 / 2 ^ 53)"
    by blast
  have "\<exists>p\<in>set (all_scores r). snd p \<noteq> 0" by (simp add: sc scores_happy_sad)
  with imp obtain mx q k where mx: "mx = Max (snd ` set (all_scores r))"
    and q: "py_truediv mx (sum_list (map snd (all_scores r)) + 1) = Inr q"
    and q_err: "\<bar>q - of_int mx / of_int (sum_list (map snd (all_scores r)) + 1)\<bar> \<le> 1 / 2 ^ 53"
    and conf: "confidence r = py_round (min q 1) 2"
    and k_err: "\<bar>of_int k / 100 - min q 1\<bar> \<le> 1 / 200"
    and ck: "confidence r = fl64 (of_int k / 100)"
    and c_err: "\<bar>confidence r - of_int k / 100\<bar> \<le> 1 / 2 ^ 53"
    by blast
  have mx3: "mx = 3" by (simp add: mx sc scores_happy_sad)
  have tot: "sum_list (map snd (all_scores r)) + 1 = 7" by (simp add: sc scores_happy_sad)
  have q37: "py_truediv 3 7 = Inr q" using q by (simp add: mx3 tot)
  have e37: "\<bar>q - 3 / 7\<bar> \<le> 1 / 2 ^ 53" using q_err by (simp add: mx3 tot)
  have small: "(1::rat) / 2 ^ 53 \<le> 1 / 1000" by simp
  have e37': "\<bar>q - 3 / 7\<bar> \<le> 1 / 1000" using e37 small by (rule order_trans)
  have qlo: "3 / 7 - 1 / 1000 \<le> q" and qhi: "q \<le> 3 / 7 + 1 / 1000"
    using e37' by linarith+
  have mq: "min q 1 = q" using qhi by simp
  have k_err': "\<bar>of_int k / 100 - q\<bar> \<le> 1 / 200" using k_err by (simp only: mq)
  have "(of_int k :: rat) < 44" and "(42 :: rat) < of_int k"
    using k_err' qlo qhi by linarith+
  then have "(of_int k :: rat) < of_int 44" and "(of_int 42 :: rat) < of_int k"
    by simp_all
  then have "k < 44" and "42 < k" by (simp_all only: of_int_less_iff)
  then have k43: "k = 43" by simp
  have c43: "confidence r = fl64 (43 / 100)" using ck by (simp add: k43)
  have "\<bar>confidence r - 43 / 100\<bar> \<le> 1 / 2 ^ 53" using c_err by (simp add: k43)
  then show ?thesis using det q37 e37 conf c43 fl64_43
    by (intro exI [of _ r] exI [of _ q]) simp
qed

text \<open>
  C3. When no keyword of any mood occurs in the normalised text, \<open>detect_emotion\<close>
  returns (it raises nothing) the mood calm with confidence 0.5, intensity low and the
  score 0 for each of the nine moods. The empty text is such a text.
\<close>

theorem detect_emotion_default:
  assumes "\<forall>(m, ks)\<in>set emotion_keywords.
      \<forall>kw\<in>set (primary ks @ secondary ks @ intensity_words ks).
        \<not> str_contains (normalize_text text) kw"
  shows "detect_emotion text =
    Inr \<lparr>emotion = ''calm'', confidence = 1 / 2, intensity = ''low'',
         all_scores =
           [(''happy'', 0), (''sad'', 0), (''energetic'', 0), (''calm'', 0), (''romantic'', 0),
            (''angry'', 0), (''anxious'', 0), (''nostalgic'', 0), (''confident'', 0)]\<rparr>"
proof -
  let ?t = "normalize_text text"
  have zero: "emotion_score ks ?t = 0" if "(m, ks) \<in> set emotion_keywords" for m ks
  proof -
    from assms that
    have "\<forall>kw\<in>set (primary ks @ secondary ks @ intensity_words ks). \<not> str_contains ?t kw"
      by blast
    then show ?thesis by (simp add: emotion_score_def add_matches_no_match)
  qed
  have "compute_scores ?t = map (\<lambda>(m, ks). (m, 0)) emotion_keywords"
    unfolding compute_scores_def by (rule map_cong) (auto simp: zero)
  then have sc: "compute_scores ?t =
      [(''happy'', 0), (''sad'', 0), (''energetic'', 0), (''calm'', 0), (''romantic'', 0),
       (''angry'', 0), (''anxious'', 0), (''nostalgic'', 0), (''confident'', 0)]"
    by (simp add: emotion_keywords_def)
  have "\<not> list_ex (\<lambda>v. v \<noteq> 0) (map snd (compute_scores ?t))" by (simp add: sc)
  from detect_emotion_no_match [OF this] show ?thesis by (simp add: sc)
qed

theorem detect_emotion_default_witness:
  "detect_emotion '''' =
    Inr \<lparr>emotion = ''calm'', confidence = 1 / 2, intensity = ''low'',
         all_scores =
           [(''happy'', 0), (''sad'', 0), (''energetic'', 0), (''calm'', 0), (''romantic'', 0),
            (''angry'', 0), (''anxious'', 0), (''nostalgic'', 0), (''confident'', 0)]\<rparr>"
proof -
  have nt: "normalize_text '''' = ''''"
    by (simp add: normalize_text_def lower_def sub_non_word_space_def)
  have "\<forall>(m, ks)\<in>set emotion_keywords.
      \<forall>kw\<in>set (primary ks @ secondary ks @ intensity_words ks).
        \<not> str_contains (normalize_text '''') kw"
    unfolding nt by (simp add: emotion_keywords_def)
  then show ?thesis by (rule detect_emotion_default)
qed

text \<open>
  C8. When some mood has a non-zero score, the intensity is decided by the winning
  score, the score of the returned mood, which is the maximum of all scores: high from
  5 on, medium from 3 to 4, low below 3.
\<close>

theorem detect_emotion_intensity_bands:
  assumes "detect_emotion text = Inr r" and "\<exists>p\<in>set (all_scores r). snd p \<noteq> 0"
  shows "\<exists>mx. map_of (all_scores r) (emotion r) = Some mx
      \<and> mx = Max (snd ` set (all_scores r))
      \<and> (5 \<le> mx \<longrightarrow> intensity r = ''high'')
      \<and> (3 \<le> mx \<and> mx < 5 \<longrightarrow> intensity r = ''medium'')
      \<and> (mx < 3 \<longrightarrow> intensity r = ''low'')"
proof -
  define scores where "scores = compute_scores (normalize_text text)"
  have sc: "all_scores r = scores"
    using assms(1) by (simp add: scores_def detect_emotion_all_scores)
  have "list_ex (\<lambda>v. v \<noteq> 0) (map snd scores)"
    using assms(2) by (auto simp: sc list_ex_iff)
  from detect_emotion_match [OF this scores_def]
  obtain pre m mx post q where split: "scores = pre @ (m, mx) # post"
    and lt: "\<forall>p\<in>set pre. snd p < mx" and le: "\<forall>p\<in>set post. snd p \<le> mx"
    and gi: "getitem scores m = Inr mx"
    and det: "detect_emotion text =
          Inr \<lparr>emotion = m, confidence = py_round (min q 1) 2,
               intensity = intensity_of mx, all_scores = scores\<rparr>"
    by blast
  from det assms(1) have r: "emotion r = m" "intensity r = intensity_of mx" by auto
  have "map_of scores m = Some mx"
    using gi by (simp add: getitem_def split: option.splits)
  moreover have "mx = Max (snd ` set scores)"
    using split_Max [OF split lt le] by simp
  ultimately show ?thesis by (simp add: sc r intensity_of_def)
qed

lemma scores_thrilled:
  "compute_scores (normalize_text ''Thrilled!'') =
     [(''happy'', 5), (''sad'', 0), (''energetic'', 0), (''calm'', 0), (''romantic'', 0),
      (''angry'', 0), (''anxious'', 0), (''nostalgic'', 0), (''confident'', 0)]"
  by code_simp

theorem detect_emotion_intensity_bands_witness:
  "\<exists>r. detect_emotion ''Thrilled!'' = Inr r \<and> emotion r = ''happy'' \<and> intensity r = ''high''"
proof -
  obtain r where det: "detect_emotion ''Thrilled!'' = Inr r"
    using detect_emotion_match [OF _ refl, of "''Thrilled!''"]
    by (auto simp: scores_thrilled)
  have sc: "all_scores r = compute_scores (normalize_text ''Thrilled!'')"
    using det by (rule detect_emotion_all_scores)
  have nz: "\<exists>p\<in>set (all_scores r). snd p \<noteq> 0" by (simp add: sc scores_thrilled)
  from detect_emotion_intensity_bands [OF det nz]
  obtain mx where mo: "map_of (all_scores r) (emotion r) = Some mx"
    and mx: "mx = Max (snd ` set (all_scores r))"
    and hi: "5 \<le> mx \<longrightarrow> intensity r = ''high''"
    by blast
  have mx5: "mx = 5" by (simp add: mx sc scores_thrilled)
  have "emotion r = ''happy''"
    using mo by (simp add: sc scores_thrilled mx5 split: if_splits)
  then show ?thesis using det hi mx5 by simp
qed

lemma getitem_calm: "getitem song_database ''calm'' = Inr calm_songs"
  by (simp add: getitem_def song_database_def)

lemma song_database_keys:
  "map fst song_database =
     [''happy'', ''sad'', ''energetic'', ''calm'', ''romantic'', ''angry'', ''anxious'',
      ''nostalgic'', ''confident'']"
  by (simp add: song_database_def)

text \<open>
  C4. For a mood that is a key of the catalog and a positive count,
  \<open>get_recommendations\<close> returns the first \<open>count\<close> songs of the mood's list in the
  stored order: a prefix of the list of length \<open>min count (length songs)\<close>, with
  no padding and no error when the list is shorter.
\<close>

theorem get_recommendations_prefix:
  assumes "map_of song_database mood = Some songs" and "0 < limit"
  shows "\<exists>recs rest. get_recommendations mood limit = Inr recs
      \<and> songs = recs @ rest
      \<and> recs = take (nat limit) songs
      \<and> int (length recs) = min limit (int (length songs))"
proof -
  have "get_recommendations mood limit = Inr (take (nat limit) songs)"
    using assms by (simp add: get_recommendations_def getitem_calm slice_to_def)
  moreover have "songs = take (nat limit) songs @ drop (nat limit) songs" by simp
  moreover have "int (length (take (nat limit) songs)) = min limit (int (length songs))"
  proof -
    have "length (take (nat limit) songs) = min (nat limit) (length songs)" by simp
    also have "int \<dots> = min limit (int (length songs))" using assms(2) by linarith
    finally show ?thesis .
  qed
  ultimately show ?thesis by blast
qed

theorem get_recommendations_prefix_witness:
  "\<exists>recs. get_recommendations ''sad'' 7 = Inr recs \<and> recs = sad_songs \<and> length recs = 5"
proof -
  have "map_of song_database ''sad'' = Some sad_songs" by (simp add: song_database_def)
  from get_recommendations_prefix [OF this, of 7]
  obtain recs where r: "get_recommendations ''sad'' 7 = Inr recs"
    and t: "recs = take (nat 7) sad_songs"
    by auto
  have "length sad_songs = 5" by (simp add: sad_songs_def)
  then show ?thesis using r t by simp
qed

text \<open>
  C5. For a mood that is not a key of the catalog and any count,
  \<open>get_recommendations\<close> returns what it returns for calm, and that is a list of
  songs, not an error.
\<close>

theorem get_recommendations_unknown_mood:
  assumes "mood \<notin> set (map fst song_database)"
  shows "get_recommendations mood limit = get_recommendations ''calm'' limit
      \<and> get_recommendations mood limit = Inr (slice_to calm_songs limit)"
proof -
  have "map_of song_database mood = None"
    using assms by (simp add: map_of_eq_None_iff)
  moreover have "map_of song_database ''calm'' = Some calm_songs"
    by (simp add: song_database_def)
  ultimately show ?thesis by (simp add: get_recommendations_def getitem_calm)
qed

theorem get_recommendations_unknown_mood_witness:
  "get_recommendations ''not-a-real-mood'' 3 = get_recommendations ''calm'' 3
     \<and> get_recommendations ''not-a-real-mood'' 3 = Inr (take 3 calm_songs)"
proof -
  have c: "slice_to calm_songs 3 = take 3 calm_songs" by (simp add: slice_to_def)
  have "''not-a-real-mood'' \<notin> set (map fst song_database)"
    by (simp add: song_database_keys)
  from get_recommendations_unknown_mood [OF this, of 3]
  show ?thesis unfolding c .
qed

lemma scores_happy_excited:
  "compute_scores (normalize_text ''I'm feeling so happy and excited today!'') =
     [(''happy'', 6), (''sad'', 0), (''energetic'', 0), (''calm'', 0), (''romantic'', 0),
      (''angry'', 0), (''anxious'', 0), (''nostalgic'', 0), (''confident'', 0)]"
  by code_simp

lemma detect_emotion_total: "\<exists>r. detect_emotion text = Inr r"
proof (cases "list_ex (\<lambda>v. v \<noteq> 0) (map snd (compute_scores (normalize_text text)))")
  case True
  from detect_emotion_match [OF True refl] show ?thesis by blast
next
  case False
  from detect_emotion_no_match [OF False] show ?thesis by blast
qed

lemma detect_emotion_in_vocabulary:
  assumes "detect_emotion text = Inr r"
  shows "emotion r \<in> set (map fst emotion_keywords)"
proof (cases "list_ex (\<lambda>v. v \<noteq> 0) (map snd (compute_scores (normalize_text text)))")
  case True
  from detect_emotion_match [OF True refl]
  obtain pre m mx post q
    where split: "compute_scores (normalize_text text) = pre @ (m, mx) # post"
    and det: "detect_emotion text =
          Inr \<lparr>emotion = m, confidence = py_round (min q 1) 2,
               intensity = intensity_of mx, all_scores = compute_scores (normalize_text text)\<rparr>"
    by blast
  have "m \<in> set (map fst (compute_scores (normalize_text text)))"
    by (subst split) simp
  then have "m \<in> set (map fst emotion_keywords)" by (simp only: compute_scores_keys)
  moreover have "emotion r = m" using det assms by auto
  ultimately show ?thesis by simp
next
  case False
  from detect_emotion_no_match [OF False] assms have "emotion r = ''calm''" by auto
  then show ?thesis by (simp add: emotion_keywords_keys)
qed

text \<open>
  C9. On the text "I'm feeling so happy and excited today!" with 3 songs the pipeline
  returns the mood happy (its score is 6, from the primary keywords happy and excited)
  with intensity high, and exactly the first three songs of the happy list; the first
  is Good Vibrations by The Beach Boys.
\<close>

theorem analyze_and_recommend_happy_excited:
  "\<exists>r. analyze_and_recommend ''I'm feeling so happy and excited today!'' 3 = Inr r
     \<and> user_input r = ''I'm feeling so happy and excited today!''
     \<and> detected_mood r = ''happy''
     \<and> result_intensity r = ''high''
     \<and> map_of (emotion_scores r) ''happy'' = Some 6
     \<and> length (recommendations r) = 3
     \<and> recommendations r = take 3 happy_songs
     \<and> hd (recommendations r) = hd happy_songs
     \<and> title (hd (recommendations r)) = ''Good Vibrations''
     \<and> artist (hd (recommendations r)) = ''The Beach Boys''"
proof -
  let ?text = "''I'm feeling so happy and excited today!''"
  define scores where "scores = compute_scores (normalize_text ?text)"
  have sc: "scores =
     [(''happy'', 6), (''sad'', 0), (''energetic'', 0), (''calm'', 0), (''romantic'', 0),
      (''angry'', 0), (''anxious'', 0), (''nostalgic'', 0), (''confident'', 0)]"
    unfolding scores_def by (rule scores_happy_excited)
  have "list_ex (\<lambda>v. v \<noteq> 0) (map snd scores)" by (simp add: sc)
  from detect_emotion_match [OF this scores_def]
  obtain m mx q where mk: "max_key scores = Inr m" and gi: "getitem scores m = Inr mx"
    and det: "detect_emotion ?text =
          Inr \<lparr>emotion = m, confidence = py_round (min q 1) 2,
               intensity = intensity_of mx, all_scores = scores\<rparr>"
    by blast
  have m: "m = ''happy''" using mk by (simp add: sc)
  have mx: "mx = 6" using gi by (simp add: sc m getitem_def)
  have "map_of song_database ''happy'' = Some happy_songs"
    by (simp add: song_database_def)
  then have recs: "get_recommendations ''happy'' 3 = Inr (take 3 happy_songs)"
    by (simp add: get_recommendations_def getitem_calm slice_to_def)
  have an: "analyze_and_recommend ?text 3 =
      Inr \<lparr>user_input = ?text, detected_mood = ''happy'',
           result_confidence = py_round (min q 1) 2, result_intensity = ''high'',
           recommendations = take 3 happy_songs, emotion_scores = scores\<rparr>"
    by (simp add: analyze_and_recommend_def det m mx recs intensity_of_def)
  have tk: "take 3 happy_songs = [happy_songs ! 0, happy_songs ! 1, happy_songs ! 2]"
    by (simp add: happy_songs_def)
  have h0: "happy_songs ! 0 = hd happy_songs" by (simp add: happy_songs_def)
  have ti: "title (hd happy_songs) = ''Good Vibrations''"
    and ar: "artist (hd happy_songs) = ''The Beach Boys''"
    by (simp_all add: happy_songs_def)
  show ?thesis
    unfolding an
    by (intro exI conjI, rule refl) (simp_all add: sc tk h0 ti ar)
qed

text \<open>
  C10. The emotion vocabulary and the song catalog have the same keys in the same
  order, every mood of the catalog has a non-empty song list, and for every text the
  mood that \<open>detect_emotion\<close> returns is a key of the catalog: the pipeline returns
  the slice of that mood's own list, never the fallback for an unknown mood.
\<close>

theorem vocabulary_matches_catalog:
  "map fst emotion_keywords = map fst song_database
   \<and> map fst song_database =
       [''happy'', ''sad'', ''energetic'', ''calm'', ''romantic'', ''angry'', ''anxious'',
        ''nostalgic'', ''confident'']
   \<and> (\<forall>(m, songs)\<in>set song_database. songs \<noteq> [])
   \<and> (\<forall>text num_songs. \<exists>er songs res.
         detect_emotion text = Inr er
         \<and> map_of song_database (emotion er) = Some songs
         \<and> analyze_and_recommend text num_songs = Inr res
         \<and> detected_mood res = emotion er
         \<and> recommendations res = slice_to songs num_songs)"
proof (intro conjI allI)
  show "map fst emotion_keywords = map fst song_database"
    by (simp add: emotion_keywords_keys song_database_keys)
  show "map fst song_database =
       [''happy'', ''sad'', ''energetic'', ''calm'', ''romantic'', ''angry'', ''anxious'',
        ''nostalgic'', ''confident'']"
    by (rule song_database_keys)
  show "\<forall>(m, songs)\<in>set song_database. songs \<noteq> []"
    by (simp add: song_database_def happy_songs_def sad_songs_def energetic_songs_def
        calm_songs_def romantic_songs_def angry_songs_def anxious_songs_def
        nostalgic_songs_def confident_songs_def)
next
  fix t n
  obtain er where det: "detect_emotion t = Inr er"
    using detect_emotion_total by blast
  have "emotion er \<in> set (map fst emotion_keywords)"
    using det by (rule detect_emotion_in_vocabulary)
  then have "emotion er \<in> set (map fst song_database)"
    by (simp only: emotion_keywords_keys song_database_keys)
  then have "emotion er \<in> fst ` set song_database"
    by (simp only: set_map)
  then obtain songs where mo: "map_of song_database (emotion er) = Some songs"
    by (metis map_of_eq_None_iff not_Some_eq)
  have "get_recommendations (emotion er) n = Inr (slice_to songs n)"
    by (simp add: get_recommendations_def getitem_calm mo)
  then have "analyze_and_recommend t n =
      Inr \<lparr>user_input = t, detected_mood = emotion er,
           result_confidence = confidence er, result_intensity = intensity er,
           recommendations = slice_to songs n, emotion_scores = all_scores er\<rparr>"
    by (simp add: analyze_and_recommend_def det)
  then show "\<exists>er songs res.
         detect_emotion t = Inr er
         \<and> map_of song_database (emotion er) = Some songs
         \<and> analyze_and_recommend t n = Inr res
         \<and> detected_mood res = emotion er
         \<and> recommendations res = slice_to songs n"
    using det mo by simp
qed

theorem vocabulary_matches_catalog_witness:
  "nostalgic_songs \<noteq> []
   \<and> (\<exists>er res. detect_emotion ''happy sad'' = Inr er
         \<and> map_of song_database (emotion er) = Some happy_songs
         \<and> analyze_and_recommend ''happy sad'' 2 = Inr res
         \<and> recommendations res = take 2 happy_songs)"
proof -
  have ball: "\<forall>(m, songs)\<in>set song_database. songs \<noteq> []"
    and pipe: "\<exists>er songs res.
         detect_emotion ''happy sad'' = Inr er
         \<and> map_of song_database (emotion er) = Some songs
         \<and> analyze_and_recommend ''happy sad'' 2 = Inr res
         \<and> detected_mood res = emotion er
         \<and> recommendations res = slice_to songs 2"
    using vocabulary_matches_catalog by blast+
  have "(''nostalgic'', nostalgic_songs) \<in> set song_database"
    by (simp add: song_database_def)
  with ball have ne: "nostalgic_songs \<noteq> []" by blast
  from pipe obtain er songs res where det: "detect_emotion ''happy sad'' = Inr er"
    and mo: "map_of song_database (emotion er) = Some songs"
    and an: "analyze_and_recommend ''happy sad'' 2 = Inr res"
    and recs: "recommendations res = slice_to songs 2"
    by blast
  have sc: "all_scores er = compute_scores (normalize_text ''happy sad'')"
    using det by (rule detect_emotion_all_scores)
  have "list_ex (\<lambda>v. v \<noteq> 0) (map snd (compute_scores (normalize_text ''happy sad'')))"
    by (simp add: scores_happy_sad)
  from detect_emotion_match [OF this refl]
  obtain m mx q where mk: "max_key (compute_scores (normalize_text ''happy sad'')) = Inr m"
    and det': "detect_emotion ''happy sad'' =
          Inr \<lparr>emotion = m, confidence = py_round (min q 1) 2,
               intensity = intensity_of mx,
               all_scores = compute_scores (normalize_text ''happy sad'')\<rparr>"
    by blast
  have "m = ''happy''" using mk by (simp add: scores_happy_sad)
  with det det' have "emotion er = ''happy''" by auto
  with mo have "songs = happy_songs" by (simp add: song_database_def)
  then have "recommendations res = take 2 happy_songs"
    using recs by (simp add: slice_to_def)
  with ne det mo an \<open>songs = happy_songs\<close> show ?thesis by blast
qed





















end
